theory Spec2Isabelle
  imports Complex_Main "HOL-Library.Multiset" "HOL-Library.List_Lexorder"
begin

section \<open>Values exchanged with the handlers\<close>

text \<open>
  The handlers of \<^verbatim>\<open>api/index.py\<close> read the parsed JSON body of a request
  (\<^verbatim>\<open>request.json\<close>, a Python dict) and answer with \<^verbatim>\<open>jsonify(...), status\<close>.
  A JSON value is one of Python's \<^verbatim>\<open>None\<close>, \<^verbatim>\<open>bool\<close>, number, \<^verbatim>\<open>str\<close>,
  \<^verbatim>\<open>list\<close> or \<^verbatim>\<open>dict\<close>. A number is the value the JSON parser produced, a Python
  \<^verbatim>\<open>int\<close> or \<^verbatim>\<open>float\<close> (an IEEE 754 double), held as the real number it
  denotes; the rounding of arithmetic on floats is the subject of the next section.
  A string is a list of characters, one per code point.
\<close>

datatype json =
    JNull
  | JBool bool
  | JNum real
  | JStr string
  | JArr "json list"
  | JObj "(string \<times> json) list"

type_synonym body = "string \<rightharpoonup> json"

datatype py_error =
    KeyError string
  | TypeError
  | InvalidId
  | ZeroDivisionError
  | DuplicateKeyError

datatype response = Response (status: nat) (payload: json)

text \<open>Python's truth value of a JSON value, as \<^verbatim>\<open>not x\<close> and \<^verbatim>\<open>if x:\<close> test it.\<close>

fun truthy :: "json \<Rightarrow> bool" where
  "truthy JNull = False"
| "truthy (JBool b) = b"
| "truthy (JNum r) = (r \<noteq> 0)"
| "truthy (JStr s) = (s \<noteq> [])"
| "truthy (JArr xs) = (xs \<noteq> [])"
| "truthy (JObj kvs) = (kvs \<noteq> [])"

text \<open>\<^verbatim>\<open>data.get(k)\<close>, \<^verbatim>\<open>data.get(k, d)\<close> and \<^verbatim>\<open>data[k]\<close>.\<close>

definition dict_get :: "body \<Rightarrow> string \<Rightarrow> json" where
  "dict_get data k = (case data k of None \<Rightarrow> JNull | Some v \<Rightarrow> v)"

definition dict_get_default :: "body \<Rightarrow> string \<Rightarrow> json \<Rightarrow> json" where
  "dict_get_default data k d = (case data k of None \<Rightarrow> d | Some v \<Rightarrow> v)"

definition dict_index :: "body \<Rightarrow> string \<Rightarrow> py_error + json" where
  "dict_index data k = (case data k of None \<Rightarrow> Inl (KeyError k) | Some v \<Rightarrow> Inr v)"

text \<open>
  The number a value stands for in a comparison or in arithmetic: \<^verbatim>\<open>True\<close> is 1 and
  \<^verbatim>\<open>False\<close> is 0; a string, list, dict or \<^verbatim>\<open>None\<close> makes the operation raise
  \<^verbatim>\<open>TypeError\<close>.
\<close>

fun as_number :: "json \<Rightarrow> real option" where
  "as_number (JBool b) = Some (if b then 1 else 0)"
| "as_number (JNum r) = Some r"
| "as_number _ = None"

definition message :: "string \<Rightarrow> json" where
  "message m = JObj [(''message'', JStr m)]"

definition error :: "string \<Rightarrow> json" where
  "error m = JObj [(''error'', JStr m)]"

section \<open>Arithmetic on floats\<close>

text \<open>
  A Python \<^verbatim>\<open>float\<close> is an IEEE 754 binary64 number: 53 significant bits. An
  operation on floats returns the exact result rounded to the nearest double, a tie
  going to the double with the even significand. For a positive \<open>x\<close> with
  \<^verbatim>\<open>2^e <= x < 2^(e+1)\<close> the doubles around \<open>x\<close> are \<^verbatim>\<open>2^(e-52)\<close> apart,
  which is \<open>quantum x\<close>; the spacing never falls below that of the subnormal numbers,
  \<^verbatim>\<open>2^(-1074)\<close>. \<open>fl x\<close> is the double nearest to the real number \<open>x\<close>.
  Results beyond the largest finite double, which Python turns into \<^verbatim>\<open>inf\<close> or
  \<^verbatim>\<open>OverflowError\<close>, are not modelled: a rating is at most 5 and a count is far
  below that bound. In an operation that mixes a float and an \<^verbatim>\<open>int\<close>, Python
  first converts the \<^verbatim>\<open>int\<close> to the nearest double (\<open>float_of_int\<close>); the
  quotient of two \<^verbatim>\<open>int\<close>s is the correctly rounded quotient, which is the same
  double as long as both are below \<^verbatim>\<open>2^53\<close>.
\<close>

function quantum :: "real \<Rightarrow> real" where
  "quantum x =
     (if x \<le> 0 then 0
      else if 2 \<le> x then 2 * quantum (x / 2)
      else if x < 1 then quantum (2 * x) / 2
      else 1 / 2 ^ 52)"
  by pat_completeness auto
termination
proof (relation "measure (\<lambda>x. if 1 \<le> x then nat \<lfloor>x\<rfloor> else 1 + nat \<lfloor>1 / x\<rfloor>)")
  show "wf (measure (\<lambda>x::real. if 1 \<le> x then nat \<lfloor>x\<rfloor> else 1 + nat \<lfloor>1 / x\<rfloor>))" by simp
next
  fix x :: real
  assume a: "\<not> x \<le> 0" "2 \<le> x"
  have "x < of_int \<lfloor>x\<rfloor> + 1" by linarith
  moreover have "1 \<le> \<lfloor>x\<rfloor>" using a by linarith
  then have "(1::real) \<le> of_int \<lfloor>x\<rfloor>" by simp
  ultimately have "x / 2 < of_int \<lfloor>x\<rfloor>" by linarith
  then have "\<lfloor>x / 2\<rfloor> < \<lfloor>x\<rfloor>" by (simp add: floor_less_iff)
  moreover have "0 < \<lfloor>x\<rfloor>" using a by linarith
  ultimately show "(x / 2, x) \<in> measure (\<lambda>x. if 1 \<le> x then nat \<lfloor>x\<rfloor> else 1 + nat \<lfloor>1 / x\<rfloor>)"
    using a by (auto simp: nat_less_iff)
next
  fix x :: real
  assume a: "\<not> x \<le> 0" "\<not> 2 \<le> x" "x < 1"
  define y where "y = 1 / x"
  have i: "1 < y" using a by (simp add: y_def)
  have h: "1 / (2 * x) = y / 2" by (simp add: y_def)
  have p: "1 \<le> \<lfloor>y\<rfloor>" using i by linarith
  have "y < of_int \<lfloor>y\<rfloor> + 1" by linarith
  moreover have "(1::real) \<le> of_int \<lfloor>y\<rfloor>" using p by simp
  ultimately have "y / 2 < of_int \<lfloor>y\<rfloor>" by linarith
  then have l: "\<lfloor>y / 2\<rfloor> < \<lfloor>y\<rfloor>" by (simp add: floor_less_iff)
  have t: "1 \<le> 2 * x \<Longrightarrow> \<lfloor>2 * x\<rfloor> = 1" using a by linarith
  have n: "0 \<le> \<lfloor>y / 2\<rfloor>" using i by simp
  show "(2 * x, x) \<in> measure (\<lambda>x. if 1 \<le> x then nat \<lfloor>x\<rfloor> else 1 + nat \<lfloor>1 / x\<rfloor>)"
  proof (cases "1 \<le> 2 * x")
    case True
    with t p show ?thesis using a by (simp add: y_def [symmetric])
  next
    case False
    with l n p show ?thesis using a by (simp add: h y_def [symmetric])
  qed
qed

declare quantum.simps [simp del]

definition round_half_even :: "real \<Rightarrow> int" where
  "round_half_even y =
     (let n = \<lfloor>y\<rfloor>
      in if y - of_int n < 1 / 2 then n
         else if 1 / 2 < y - of_int n then n + 1
         else if even n then n else n + 1)"

definition fl :: "real \<Rightarrow> real" where
  "fl x =
     (if x = 0 then 0
      else (let q = max (quantum \<bar>x\<bar>) (1 / 2 ^ 1074)
            in sgn x * of_int (round_half_even (\<bar>x\<bar> / q)) * q))"

definition float_of_int :: "int \<Rightarrow> real" where
  "float_of_int n = fl (of_int n)"

section \<open>Object identifiers\<close>

text \<open>
  \<^verbatim>\<open>bson.ObjectId\<close> wraps 12 bytes. Built from a \<^verbatim>\<open>str\<close>, it demands 24 characters
  that \<^verbatim>\<open>bytes.fromhex\<close> accepts and raises \<^verbatim>\<open>InvalidId\<close> otherwise; any other
  non-\<^verbatim>\<open>None\<close> JSON value raises \<^verbatim>\<open>TypeError\<close>. The handlers call it on truthy
  values only, so the id generation of \<^verbatim>\<open>ObjectId(None)\<close> never arises there.
  \<^verbatim>\<open>str\<close> of an identifier is its lower-case hexadecimal text. Identifiers are
  ordered as byte strings.
\<close>

type_synonym oid = "nat list"

definition isspace :: "char \<Rightarrow> bool" where
  "isspace c = ((of_char c :: nat) \<in> {9, 10, 11, 12, 13, 32})"

definition hex_digit :: "char \<Rightarrow> nat option" where
  "hex_digit c =
     (let n = (of_char c :: nat)
      in if 48 \<le> n \<and> n \<le> 57 then Some (n - 48)
         else if 97 \<le> n \<and> n \<le> 102 then Some (n - 87)
         else if 65 \<le> n \<and> n \<le> 70 then Some (n - 55)
         else None)"

fun fromhex :: "string \<Rightarrow> nat list option" where
  "fromhex [] = Some []"
| "fromhex [c] = (if isspace c then Some [] else None)"
| "fromhex (c # d # cs) =
     (if isspace c then fromhex (d # cs)
      else case (hex_digit c, hex_digit d) of
             (Some hi, Some lo) \<Rightarrow> map_option ((#) (16 * hi + lo)) (fromhex cs)
           | _ \<Rightarrow> None)"

fun ObjectId :: "json \<Rightarrow> py_error + oid" where
  "ObjectId (JStr s) =
     (if length s = 24
      then (case fromhex s of Some bs \<Rightarrow> Inr bs | None \<Rightarrow> Inl InvalidId)
      else Inl InvalidId)"
| "ObjectId _ = Inl TypeError"

definition hex_of_byte :: "nat \<Rightarrow> string" where
  "hex_of_byte b = [''0123456789abcdef'' ! (b div 16 mod 16), ''0123456789abcdef'' ! (b mod 16)]"

definition str :: "oid \<Rightarrow> string" where
  "str i = concat (map hex_of_byte i)"

section \<open>Equality filters of the store\<close>

text \<open>
  A filter \<^verbatim>\<open>{field: value}\<close> of \<^verbatim>\<open>find\<close> and \<^verbatim>\<open>find_one\<close> selects the
  documents whose field equals the value, and also those whose field is an array with
  the value among its elements. When the value is a dict whose first key starts with
  \<^verbatim>\<open>$\<close>, the store reads it as a query operator (\<^verbatim>\<open>{"$ne": null}\<close>,
  \<^verbatim>\<open>{"$gt": ""}\<close>, ...) and not as a value to compare with.
\<close>

definition eq_match :: "json \<Rightarrow> json \<Rightarrow> bool" where
  "eq_match stored v = (stored = v \<or> (case stored of JArr xs \<Rightarrow> v \<in> set xs | _ \<Rightarrow> False))"

fun is_operator :: "json \<Rightarrow> bool" where
  "is_operator (JObj ((k, v) # kvs)) = (take 1 k = ''$'')"
| "is_operator _ = False"

section \<open>The document store\<close>

text \<open>
  A review document has the keys \<^verbatim>\<open>add_review\<close> writes. The collection
  \<^verbatim>\<open>reviews_collection\<close> is the list of its documents in insertion order, each with
  its \<^verbatim>\<open>_id\<close>. A filter \<^verbatim>\<open>{"_id": i}\<close> selects the first document with that
  identifier; \<^verbatim>\<open>update_one\<close> changes that document alone and changes nothing when
  there is none.
\<close>

record comment_doc =
  user_email :: json
  comment :: json

record review_doc =
  Name :: json
  location :: json
  purpose :: json
  budget :: json
  transport :: json
  review :: json
  images :: json
  rating :: real
  rating_count :: int
  comments :: "comment_doc list"

type_synonym reviews_collection = "(oid \<times> review_doc) list"

definition find_one :: "oid \<Rightarrow> reviews_collection \<Rightarrow> review_doc option" where
  "find_one i db = map_of db i"

fun update_one :: "oid \<Rightarrow> (review_doc \<Rightarrow> review_doc) \<Rightarrow> reviews_collection \<Rightarrow> reviews_collection" where
  "update_one i f [] = []"
| "update_one i f ((j, d) # ds) =
     (if j = i then (j, f d) # ds else (j, d) # update_one i f ds)"

text \<open>
  \<^verbatim>\<open>insert_one\<close> stores the document under the identifier the driver generated for
  it, here the argument \<open>new_id\<close>; the store refuses an identifier it already holds.
\<close>

definition insert_one :: "oid \<Rightarrow> review_doc \<Rightarrow> reviews_collection \<Rightarrow> py_error + reviews_collection" where
  "insert_one new_id d db =
     (if new_id \<in> fst ` set db then Inl DuplicateKeyError else Inr (db @ [(new_id, d)]))"

section \<open>Adding a review\<close>

definition add_review :: "reviews_collection \<Rightarrow> oid \<Rightarrow> body \<Rightarrow> (py_error + response) \<times> reviews_collection" where
  "add_review db new_id data =
     (case dict_index data ''Name'' of Inl e \<Rightarrow> (Inl e, db) | Inr v_name \<Rightarrow>
      case dict_index data ''location'' of Inl e \<Rightarrow> (Inl e, db) | Inr v_location \<Rightarrow>
      case dict_index data ''purpose'' of Inl e \<Rightarrow> (Inl e, db) | Inr v_purpose \<Rightarrow>
      case dict_index data ''budget'' of Inl e \<Rightarrow> (Inl e, db) | Inr v_budget \<Rightarrow>
      case dict_index data ''transport'' of Inl e \<Rightarrow> (Inl e, db) | Inr v_transport \<Rightarrow>
      case dict_index data ''review'' of Inl e \<Rightarrow> (Inl e, db) | Inr v_review \<Rightarrow>
      (let doc = \<lparr> Name = v_name, location = v_location, purpose = v_purpose,
                   budget = v_budget, transport = v_transport, review = v_review,
                   images = dict_get_default data ''photo_urls'' (JArr []),
                   rating = 0, rating_count = 0, comments = [] \<rparr>
       in case insert_one new_id doc db of
            Inl e \<Rightarrow> (Inl e, db)
          | Inr db' \<Rightarrow> (Inr (Response 201 (message ''Review added successfully!'')), db')))"

section \<open>Updating a rating\<close>

text \<open>
  The stored \<^verbatim>\<open>rating\<close> is the \<^verbatim>\<open>int\<close> 0 that \<^verbatim>\<open>add_review\<close> wrote or a
  float written by an earlier update; \<^verbatim>\<open>rating_count\<close> is an \<^verbatim>\<open>int\<close>. The
  product, the sum and the quotient of lines 208 to 210 are each rounded to a double.
  Where Python computes in \<^verbatim>\<open>int\<close>s instead (the first rating of a review, when
  it is an \<^verbatim>\<open>int\<close>), the operands are so small that rounding changes nothing.
\<close>

definition update_rating :: "reviews_collection \<Rightarrow> body \<Rightarrow> (py_error + response) \<times> reviews_collection" where
  "update_rating db data =
     (let review_id = dict_get data ''reviewId'';
          rating_v = dict_get data ''rating''
      in if \<not> truthy review_id \<or> \<not> truthy rating_v
         then (Inr (Response 400 (error ''Review ID and rating are required.'')), db)
         else case as_number rating_v of
           None \<Rightarrow> (Inl TypeError, db)
         | Some r \<Rightarrow>
             if \<not> (1 \<le> r \<and> r \<le> 5)
             then (Inr (Response 400 (error ''Rating must be between 1 and 5.'')), db)
             else case ObjectId review_id of
               Inl e \<Rightarrow> (Inl e, db)
             | Inr i \<Rightarrow>
                 (case find_one i db of
                    None \<Rightarrow> (Inr (Response 404 (error ''Review not found.'')), db)
                  | Some rv \<Rightarrow>
                      (let total_rating =
                             fl (fl (rating rv * float_of_int (rating_count rv)) + r);
                           new_rating_count = rating_count rv + 1
                       in if new_rating_count = 0 then (Inl ZeroDivisionError, db)
                          else
                            (let new_avg_rating =
                                   fl (total_rating / float_of_int new_rating_count)
                             in (Inr (Response 200 (message ''Rating updated successfully!'')),
                                 update_one i
                                   (\<lambda>d. d\<lparr>rating := new_avg_rating,
                                           rating_count := new_rating_count\<rparr>)
                                   db)))))"

text \<open>
  A client submitting the ratings \<open>rs\<close> one after the other to the review \<open>rid\<close>:
  each request is \<^verbatim>\<open>{"reviewId": rid, "rating": r}\<close>, and the run stops with
  \<open>None\<close> at the first answer that is not \<^verbatim>\<open>200\<close>.
\<close>

definition rating_request :: "json \<Rightarrow> real \<Rightarrow> body" where
  "rating_request rid r = [''reviewId'' \<mapsto> rid, ''rating'' \<mapsto> JNum r]"

fun submit_ratings :: "reviews_collection \<Rightarrow> json \<Rightarrow> real list \<Rightarrow> reviews_collection option" where
  "submit_ratings db rid [] = Some db"
| "submit_ratings db rid (r # rs) =
     (case update_rating db (rating_request rid r) of
        (Inr (Response code _), db') \<Rightarrow>
          if code = 200 then submit_ratings db' rid rs else None
      | (Inl _, _) \<Rightarrow> None)"

text \<open>
  The arithmetic of successive updates of one review, started from the stored mean
  \<open>m\<close> and count \<open>c\<close>: what \<^verbatim>\<open>update_rating\<close> writes after the ratings \<open>rs\<close>.
\<close>

fun fold_mean :: "real \<Rightarrow> int \<Rightarrow> real list \<Rightarrow> real \<times> int" where
  "fold_mean m c [] = (m, c)"
| "fold_mean m c (r # rs) =
     fold_mean (fl (fl (fl (m * float_of_int c) + r) / float_of_int (c + 1))) (c + 1) rs"

text \<open>
  \<open>exact_means S k rs\<close>: starting from the sum \<open>S\<close> of \<open>k\<close> ratings, every further
  running sum and every further running mean of \<open>rs\<close> is itself a double.
\<close>

fun exact_means :: "real \<Rightarrow> nat \<Rightarrow> real list \<Rightarrow> bool" where
  "exact_means S k [] = True"
| "exact_means S k (r # rs) =
     (fl (S + r) = S + r \<and> fl ((S + r) / real (k + 1)) = (S + r) / real (k + 1)
      \<and> exact_means (S + r) (k + 1) rs)"

section \<open>Commenting on a review\<close>

text \<open>
  \<^verbatim>\<open>@jwt_required()\<close> lets the body of \<^verbatim>\<open>add_comment\<close> run only for a request
  that carries a valid token; \<open>identity\<close> is what \<^verbatim>\<open>get_jwt_identity()\<close> returns
  for it. \<^verbatim>\<open>$push\<close> appends to the \<^verbatim>\<open>comments\<close> array of the selected document.
\<close>

definition add_comment :: "reviews_collection \<Rightarrow> json \<Rightarrow> body \<Rightarrow> (py_error + response) \<times> reviews_collection" where
  "add_comment db identity data =
     (let review_id = dict_get data ''reviewId'';
          comment_v = dict_get data ''comment''
      in if \<not> truthy review_id \<or> \<not> truthy comment_v
         then (Inr (Response 400 (error ''Review ID and comment are required.'')), db)
         else case ObjectId review_id of
           Inl e \<Rightarrow> (Inl e, db)
         | Inr i \<Rightarrow>
             (Inr (Response 200 (message ''Comment added successfully!'')),
              update_one i
                (\<lambda>d. d\<lparr>comments := comments d @ [\<lparr>user_email = identity, comment = comment_v\<rparr>]\<rparr>)
                db))"

section \<open>Signing up\<close>

text \<open>
  \<^verbatim>\<open>users_collection\<close> is the list of the stored user documents. The email of a
  request is whatever JSON value the client sent. \<^verbatim>\<open>find_one({"email": e})\<close> is the
  first stored user whose email matches \<open>e\<close> as an equality filter; when \<open>e\<close> is a
  query operator, the answer is the store's, here the parameter \<open>find_by_operator\<close>,
  which may also raise. Password hashing and token creation belong to other libraries
  and are parameters of the handler; either may raise.
\<close>

record user_doc =
  name :: json
  email :: json
  password :: string
  address :: json
  phone :: json

type_synonym users_collection = "user_doc list"

type_synonym operator_query = "json \<Rightarrow> users_collection \<Rightarrow> py_error + user_doc option"

definition users_find_one ::
  "operator_query \<Rightarrow> json \<Rightarrow> users_collection \<Rightarrow> py_error + user_doc option" where
  "users_find_one find_by_operator e users =
     (if is_operator e then find_by_operator e users
      else Inr (find (\<lambda>u. eq_match (email u) e) users))"

definition signup ::
  "operator_query \<Rightarrow> (json \<Rightarrow> py_error + string) \<Rightarrow> (json \<Rightarrow> py_error + string) \<Rightarrow>
   users_collection \<Rightarrow> body \<Rightarrow> (py_error + response) \<times> users_collection" where
  "signup find_by_operator generate_password_hash create_access_token users data =
     (let name_v = dict_get data ''name'';
          email_v = dict_get data ''email'';
          password_v = dict_get data ''password'';
          address_v = dict_get data ''address'';
          phone_v = dict_get data ''phone''
      in if \<not> truthy name_v \<or> \<not> truthy email_v \<or> \<not> truthy password_v
         then (Inr (Response 400 (error ''Missing required fields'')), users)
         else case users_find_one find_by_operator email_v users of
           Inl e \<Rightarrow> (Inl e, users)
         | Inr (Some found) \<Rightarrow>
             (Inr (Response 409 (error ''Email already registered'')), users)
         | Inr None \<Rightarrow>
           case generate_password_hash password_v of
           Inl e \<Rightarrow> (Inl e, users)
         | Inr hashed_password \<Rightarrow>
             (let users' = users @ [\<lparr>name = name_v, email = email_v,
                                      password = hashed_password,
                                      address = address_v, phone = phone_v\<rparr>]
              in case create_access_token email_v of
                   Inl e \<Rightarrow> (Inl e, users')
                 | Inr access_token \<Rightarrow>
                     (Inr (Response 201
                        (JObj [(''message'', JStr ''Signup successful!''),
                               (''token'', JStr access_token),
                               (''name'', name_v)])), users')))"

section \<open>Querying reviews\<close>

text \<open>
  \<^verbatim>\<open>request.args.get(k)\<close> is the text of the query parameter \<open>k\<close>, or \<^verbatim>\<open>None\<close>.
  The query is the list of the \<^verbatim>\<open>(key, value)\<close> pairs the handler puts into its
  dict, each value a string; a document matches when, for each of these keys, its field
  matches that string as an equality filter: the field is that string, or an array with
  that string among its elements.
  \<^verbatim>\<open>find\<close> keeps the matching documents in their stored order. A descending sort
  leaves the order of documents with equal keys to the store; here it is the reverse of
  a stable ascending sort, and no statement below depends on that choice.
\<close>

type_synonym args = "string \<rightharpoonup> string"

datatype sort_field = By_id | By_rating

definition doc_field :: "string \<Rightarrow> review_doc \<Rightarrow> json option" where
  "doc_field k d =
     (if k = ''Name'' then Some (Name d)
      else if k = ''location'' then Some (location d)
      else if k = ''purpose'' then Some (purpose d)
      else if k = ''budget'' then Some (budget d)
      else if k = ''transport'' then Some (transport d)
      else if k = ''review'' then Some (review d)
      else if k = ''images'' then Some (images d)
      else None)"

definition matches :: "(string \<times> string) list \<Rightarrow> review_doc \<Rightarrow> bool" where
  "matches query d =
     list_all (\<lambda>(k, v). case doc_field k d of
                            Some stored \<Rightarrow> eq_match stored (JStr v)
                          | None \<Rightarrow> False) query"

definition find_docs :: "(string \<times> string) list \<Rightarrow> reviews_collection \<Rightarrow> reviews_collection" where
  "find_docs query db = filter (\<lambda>(i, d). matches query d) db"

definition sort_desc :: "('a \<Rightarrow> 'k::linorder) \<Rightarrow> 'a list \<Rightarrow> 'a list" where
  "sort_desc f xs = rev (sort_key f xs)"

definition add_filter :: "string \<Rightarrow> string option \<Rightarrow> (string \<times> string) list \<Rightarrow> (string \<times> string) list" where
  "add_filter k a query =
     (case a of None \<Rightarrow> query | Some v \<Rightarrow> if v \<noteq> [] then query @ [(k, v)] else query)"

definition get_reviews :: "reviews_collection \<Rightarrow> args \<Rightarrow> (string \<times> review_doc) list \<times> nat" where
  "get_reviews db args =
     (let location_a = args ''location'';
          purpose_a = args ''purpose'';
          budget_a = args ''budget'';
          transport_a = args ''transport'';
          sort_a = args ''sort'';
          query = add_filter ''transport'' transport_a
                    (add_filter ''budget'' budget_a
                      (add_filter ''purpose'' purpose_a
                        (add_filter ''location'' location_a [])));
          sort_order = (if sort_a = Some ''newest'' then Some By_id
                        else if sort_a = Some ''rating'' then Some By_rating
                        else None);
          reviews_cursor = find_docs query db;
          reviews_cursor' = (case sort_order of
                               None \<Rightarrow> reviews_cursor
                             | Some By_id \<Rightarrow> sort_desc fst reviews_cursor
                             | Some By_rating \<Rightarrow> sort_desc (\<lambda>(i, d). rating d) reviews_cursor)
      in (map (\<lambda>(i, d). (str i, d)) reviews_cursor', 200))"

text \<open>The query dict \<^verbatim>\<open>get_reviews\<close> builds from the request arguments.\<close>

definition query_of :: "args \<Rightarrow> (string \<times> string) list" where
  "query_of args = add_filter ''transport'' (args ''transport'')
                    (add_filter ''budget'' (args ''budget'')
                      (add_filter ''purpose'' (args ''purpose'')
                        (add_filter ''location'' (args ''location'') [])))"

section \<open>Sample data\<close>

text \<open>
  Stored reviews, request bodies and a stored user for concrete runs. The requests of
  these runs carry string emails, so \<open>find_by_operator\<close> is never asked; it is
  instantiated with a store that selects nothing.
\<close>

definition sample_id :: oid where
  "sample_id = [170, 170, 170, 170, 170, 170, 170, 170, 170, 170, 170, 170]"

definition sample_rid :: json where
  "sample_rid = JStr ''aaaaaaaaaaaaaaaaaaaaaaaa''"

definition sample_body :: body where
  "sample_body = [''Name'' \<mapsto> JStr ''Ann'', ''location'' \<mapsto> JStr ''Paris'',
                  ''purpose'' \<mapsto> JStr ''leisure'', ''budget'' \<mapsto> JStr ''low'',
                  ''transport'' \<mapsto> JStr ''train'', ''review'' \<mapsto> JStr ''fine'']"

definition sample_doc :: review_doc where
  "sample_doc = \<lparr>Name = JStr ''Ann'', location = JStr ''Paris'', purpose = JStr ''leisure'',
                  budget = JStr ''low'', transport = JStr ''train'', review = JStr ''fine'',
                  images = JArr [], rating = 0, rating_count = 0, comments = []\<rparr>"

definition sample_db :: reviews_collection where
  "sample_db = [(sample_id, sample_doc)]"

definition older_id :: oid where
  "older_id = [1, 2, 3, 4, 5, 6, 7, 8, 9, 10, 11, 12]"

definition older_doc :: review_doc where
  "older_doc = \<lparr>Name = JStr ''Bob'', location = JStr ''Rome'', purpose = JStr ''work'',
                 budget = JStr ''high'', transport = JStr ''plane'', review = JStr ''good'',
                 images = JArr [], rating = 4, rating_count = 1, comments = []\<rparr>"

definition two_reviews :: reviews_collection where
  "two_reviews = [(older_id, older_doc), (sample_id, sample_doc)]"


definition listed_body :: body where
  "listed_body = [''Name'' \<mapsto> JStr ''Cy'',
                  ''location'' \<mapsto> JArr [JStr ''Paris'', JStr ''Rome''],
                  ''purpose'' \<mapsto> JStr ''leisure'', ''budget'' \<mapsto> JStr ''low'',
                  ''transport'' \<mapsto> JStr ''train'', ''review'' \<mapsto> JStr ''both'']"

definition sample_user :: user_doc where
  "sample_user = \<lparr>name = JStr ''Ann'', email = JStr ''ann@example.org'',
                   password = ''hashed'', address = JNull, phone = JNull\<rparr>"

definition sample_hash :: "json \<Rightarrow> py_error + string" where
  "sample_hash p = Inr ''hashed''"

definition sample_token :: "json \<Rightarrow> py_error + string" where
  "sample_token e = Inr ''token''"

definition sample_operators :: operator_query where
  "sample_operators e users = Inr None"

section \<open>Facts about the store\<close>

lemma find_one_update_one:
  "find_one i (update_one j f db) = (if i = j then map_option f (find_one i db) else find_one i db)"
  by (induction db) (auto simp: find_one_def)

lemma find_one_appended:
  "new_id \<notin> fst ` set db \<Longrightarrow> find_one new_id (db @ [(new_id, d)]) = Some d"
  by (simp add: find_one_def map_add_Some_iff map_of_eq_None_iff)

lemma ObjectId_truthy: "ObjectId v = Inr i \<Longrightarrow> truthy v"
  by (cases v) (auto split: if_splits)

lemma ObjectId_sample: "ObjectId sample_rid = Inr sample_id"
  by (simp add: sample_rid_def sample_id_def hex_digit_def isspace_def)

section \<open>Rating submissions outside the range\<close>

text \<open>
  C2. A rating whose value is below 1 or above 5 is answered with status 400 and the
  store is left as it was, so the rating and the count of every review are unchanged.
\<close>

theorem update_rating_out_of_range:
  assumes "as_number (dict_get data ''rating'') = Some r" and "r < 1 \<or> 5 < r"
  shows "\<exists>m. update_rating db data = (Inr (Response 400 (error m)), db)"
  using assms by (auto simp: update_rating_def Let_def)

theorem update_rating_out_of_range_witness:
  "\<exists>m. update_rating sample_db [''reviewId'' \<mapsto> sample_rid, ''rating'' \<mapsto> JNum 7]
        = (Inr (Response 400 (error m)), sample_db)"
  by (rule update_rating_out_of_range [where r = 7]) (simp_all add: dict_get_def)

section \<open>Review bodies with a missing key\<close>

text \<open>
  C10. When the body of an \<^verbatim>\<open>add_review\<close> request lacks one of the keys
  \<^verbatim>\<open>Name\<close>, \<^verbatim>\<open>location\<close>, \<^verbatim>\<open>purpose\<close>, \<^verbatim>\<open>budget\<close>, \<^verbatim>\<open>transport\<close>,
  \<^verbatim>\<open>review\<close>, the handler raises \<^verbatim>\<open>KeyError\<close>: there is no 201 answer and the
  store is unchanged.
\<close>

theorem add_review_missing_key:
  assumes "k \<in> {''Name'', ''location'', ''purpose'', ''budget'', ''transport'', ''review''}"
    and "data k = None"
  shows "\<exists>k'. add_review db new_id data = (Inl (KeyError k'), db)"
  using assms by (auto simp: add_review_def dict_index_def split: option.splits)

theorem add_review_missing_key_witness:
  "\<exists>k'. add_review [] [1, 2, 3, 4, 5, 6, 7, 8, 9, 10, 11, 12]
          [''Name'' \<mapsto> JStr ''Ann'', ''location'' \<mapsto> JStr ''Paris'',
           ''purpose'' \<mapsto> JStr ''leisure'', ''transport'' \<mapsto> JStr ''train'',
           ''review'' \<mapsto> JStr ''fine'']
        = (Inl (KeyError k'), [])"
  by (rule add_review_missing_key [where k = "''budget''"]) simp_all

section \<open>The running mean\<close>

lemma add_review_created:
  assumes "add_review db new_id data = (Inr resp, db1)"
  shows "\<exists>d. find_one new_id db1 = Some d \<and> rating d = 0 \<and> rating_count d = 0 \<and> comments d = []"
  using assms
  by (auto simp: add_review_def insert_one_def find_one_appended Let_def
           split: sum.splits if_splits)

lemma update_rating_step:
  assumes "ObjectId rid = Inr i" and "1 \<le> r" and "r \<le> 5"
    and "find_one i db = Some rv" and "0 \<le> rating_count rv"
  shows "update_rating db (rating_request rid r)
           = (Inr (Response 200 (message ''Rating updated successfully!'')),
              update_one i
                (\<lambda>d. d\<lparr>rating := fl (fl (fl (rating rv * float_of_int (rating_count rv)) + r)
                                        / float_of_int (rating_count rv + 1)),
                        rating_count := rating_count rv + 1\<rparr>) db)"
proof -
  have t: "truthy rid" using assms(1) by (rule ObjectId_truthy)
  have g: "dict_get (rating_request rid r) ''reviewId'' = rid"
          "dict_get (rating_request rid r) ''rating'' = JNum r"
    by (simp_all add: dict_get_def rating_request_def)
  have nz: "rating_count rv + 1 \<noteq> 0" using assms(5) by simp
  from assms(2) have r0: "r \<noteq> 0" by simp
  show ?thesis
    unfolding update_rating_def g Let_def
    using t r0 assms(1-4) nz by simp
qed

text \<open>
  A run of submissions to a stored review is answered with 200 throughout and leaves
  in the review what \<open>fold_mean\<close> computes from the stored mean and count.
\<close>

lemma submit_ratings_fold_mean:
  assumes "ObjectId rid = Inr i" and "\<forall>r\<in>set rs. 1 \<le> r \<and> r \<le> 5"
    and "find_one i db = Some rv" and "0 \<le> rating_count rv"
  shows "\<exists>db' rv'. submit_ratings db rid rs = Some db' \<and> find_one i db' = Some rv'
           \<and> (rating rv', rating_count rv') = fold_mean (rating rv) (rating_count rv) rs"
  using assms(2-4)
proof (induction rs arbitrary: db rv)
  case Nil
  then show ?case by simp
next
  case (Cons r rs)
  let ?c = "rating_count rv"
  let ?m = "fl (fl (fl (rating rv * float_of_int ?c) + r) / float_of_int (?c + 1))"
  let ?rv = "rv\<lparr>rating := ?m, rating_count := ?c + 1\<rparr>"
  let ?db = "update_one i (\<lambda>d. d\<lparr>rating := ?m, rating_count := ?c + 1\<rparr>) db"
  from Cons.prems have r: "1 \<le> r" "r \<le> 5" and rs: "\<forall>r\<in>set rs. 1 \<le> r \<and> r \<le> 5"
    by simp_all
  have step: "update_rating db (rating_request rid r)
                = (Inr (Response 200 (message ''Rating updated successfully!'')), ?db)"
    using assms(1) r Cons.prems(2,3) by (rule update_rating_step)
  have f: "find_one i ?db = Some ?rv"
    using Cons.prems(2) by (simp add: find_one_update_one)
  have c: "0 \<le> rating_count ?rv" using Cons.prems(3) by simp
  from Cons.IH [OF rs f c] obtain db' rv' where
    h: "submit_ratings ?db rid rs = Some db'" "find_one i db' = Some rv'"
       "(rating rv', rating_count rv') = fold_mean (rating ?rv) (rating_count ?rv) rs"
    by blast
  have "submit_ratings db rid (r # rs) = Some db'"
    using step h(1) by simp
  moreover have "(rating rv', rating_count rv') = fold_mean (rating rv) ?c (r # rs)"
    using h(3) by simp
  ultimately show ?case using h(2) by blast
qed

subsection \<open>The error of one rounding\<close>

lemma quantum_bounds:
  "0 < x \<Longrightarrow> quantum x \<le> x / 2 ^ 52 \<and> x / 2 ^ 53 < quantum x"
proof (induction x rule: quantum.induct)
  case (1 x)
  consider "2 \<le> x" | "x < 1" | "1 \<le> x" "x < 2" by linarith
  then show ?case
  proof cases
    case 1
    with "1.prems" have "quantum (x / 2) \<le> x / 2 / 2 ^ 52 \<and> x / 2 / 2 ^ 53 < quantum (x / 2)"
      by (intro "1.IH"(1)) simp_all
    moreover have "quantum x = 2 * quantum (x / 2)"
      using 1 "1.prems" by (subst quantum.simps) simp
    ultimately show ?thesis by simp
  next
    case 2
    with "1.prems" have "quantum (2 * x) \<le> 2 * x / 2 ^ 52 \<and> 2 * x / 2 ^ 53 < quantum (2 * x)"
      by (intro "1.IH"(2)) simp_all
    moreover have "quantum x = quantum (2 * x) / 2"
      using 2 "1.prems" by (subst quantum.simps) simp
    ultimately show ?thesis by simp
  next
    case 3
    then have "quantum x = 1 / 2 ^ 52"
      by (subst quantum.simps) simp
    with 3 show ?thesis by simp
  qed
qed

lemma round_half_even_near: "\<bar>of_int (round_half_even y) - y\<bar> \<le> 1 / 2"
  unfolding round_half_even_def Let_def
  by (auto split: if_splits)

lemma fl_zero: "fl 0 = 0"
  by (simp add: fl_def)

lemma fl_near:
  assumes "1 / 2 \<le> x"
  shows "x * (1 - 1 / 2 ^ 53) \<le> fl x \<and> fl x \<le> x * (1 + 1 / 2 ^ 53)"
proof -
  from assms have pos: "0 < x" by simp
  from quantum_bounds [OF pos] have qb: "quantum x \<le> x / 2 ^ 52" "x / 2 ^ 53 < quantum x"
    by simp_all
  have "(1::real) / 2 ^ 1074 \<le> 1 / 2 / 2 ^ 53" by simp
  also have "\<dots> \<le> x / 2 ^ 53" using assms by (intro divide_right_mono) simp_all
  finally have "max (quantum x) (1 / 2 ^ 1074) = quantum x" using qb(2) by simp
  then have f: "fl x = of_int (round_half_even (x / quantum x)) * quantum x"
    using pos by (simp add: fl_def Let_def)
  have "0 < x / 2 ^ 53" using pos by simp
  from this qb(2) have qpos: "0 < quantum x" by (rule less_trans)
  define n where "n = (of_int (round_half_even (x / quantum x)) :: real)"
  have near: "\<bar>n - x / quantum x\<bar> \<le> 1 / 2"
    unfolding n_def by (rule round_half_even_near)
  have e: "n * quantum x - x = (n - x / quantum x) * quantum x"
    using qpos by (simp add: field_simps)
  have "\<bar>n * quantum x - x\<bar> = \<bar>n - x / quantum x\<bar> * quantum x"
    using qpos by (simp add: e abs_mult)
  also have "\<dots> \<le> 1 / 2 * quantum x"
    using near qpos by (intro mult_right_mono) simp_all
  finally have "\<bar>fl x - x\<bar> \<le> quantum x / 2"
    by (simp add: f n_def)
  define d where "d = x / 2 ^ 53"
  define y where "y = fl x"
  from \<open>\<bar>fl x - x\<bar> \<le> quantum x / 2\<close> qb(1) have "\<bar>y - x\<bar> \<le> d"
    by (simp add: d_def y_def)
  then have le: "y - x \<le> d" "x - y \<le> d"
    by (simp_all add: abs_le_iff)
  have lo: "x * (1 - 1 / 2 ^ 53) = x - d" and hi: "x * (1 + 1 / 2 ^ 53) = x + d"
    by (simp_all add: d_def right_diff_distrib distrib_left)
  from le have "x - d \<le> y \<and> y \<le> x + d" by linarith
  then show ?thesis unfolding lo hi y_def .
qed


lemma fl_mono_bounds:
  assumes "0 < a" and "a = 1 - 1 / 2 ^ 53" and "b = 1 + 1 / 2 ^ 53"
    and "1 / 2 \<le> x" and "lo \<le> x" and "x \<le> hi"
  shows "lo * a \<le> fl x \<and> fl x \<le> hi * b"
proof -
  have b: "0 < b" using assms(3) by simp
  from fl_near [OF assms(4)] have n: "x * a \<le> fl x" "fl x \<le> x * b"
    by (simp_all add: assms(2,3))
  have "lo * a \<le> x * a" using assms(1,5) by (intro mult_right_mono) simp_all
  moreover have "x * b \<le> hi * b" using b assms(6) by (intro mult_right_mono) simp_all
  ultimately show ?thesis using n by linarith
qed

lemma mean_step_bounds:
  fixes m S r :: real and k :: nat
  assumes a: "a = 1 - 1 / 2 ^ 53" and b: "b = 1 + 1 / 2 ^ 53"
    and r: "1 \<le> r"
    and S: "real k \<le> S"
    and lo: "S * a ^ (3 * k) \<le> m * real k"
    and hi: "m * real k \<le> S * b ^ (3 * k)"
    and small: "1 / 2 \<le> a ^ (3 * (k + 1))"
  shows "(S + r) * a ^ (3 * (k + 1)) \<le> fl (fl (fl (m * real k) + r) / real (k + 1)) * real (k + 1)
       \<and> fl (fl (fl (m * real k) + r) / real (k + 1)) * real (k + 1) \<le> (S + r) * b ^ (3 * (k + 1))"
proof -
  define L where "L = a ^ (3 * k)"
  define U where "U = b ^ (3 * k)"
  have a0: "0 < a" and a1: "a \<le> 1" by (simp_all add: a)
  have b1: "1 \<le> b" and b0: "0 < b" by (simp_all add: b)
  have L0: "0 < L" and L1: "L \<le> 1" using a0 a1 by (simp_all add: L_def power_le_one)
  have U1: "1 \<le> U" using b1 by (simp add: U_def)
  have U0: "0 < U" using U1 by linarith
  have "0 \<le> real k" by simp
  from this S have S0: "0 \<le> S" by (rule order_trans)
  have pa: "a ^ (3 * (k + 1)) = L * a * a * a"
    by (simp add: L_def power_add power3_eq_cube algebra_simps)
  have pb: "b ^ (3 * (k + 1)) = U * b * b * b"
    by (simp add: U_def power_add power3_eq_cube algebra_simps)
  have La3: "1 / 2 \<le> L * a * a * a" using small pa by simp
  have La2: "L * a * a * a \<le> L * a * a"
    using a0 a1 L0 by (simp add: mult_left_le)
  have La1: "L * a * a \<le> L * a"
    using a0 a1 L0 by (simp add: mult_left_le)
  have La0: "L * a \<le> L"
    using a0 a1 L0 by (simp add: mult_left_le)
  have Lh: "1 / 2 \<le> L" and Lah: "1 / 2 \<le> L * a * a" and La_le1: "L * a \<le> 1"
    using La3 La2 La1 La0 L1 by linarith+
  have "1 * 1 \<le> U * b" using U1 b1 by (intro mult_mono) simp_all
  then have Ub: "1 \<le> U * b" by simp
  \<comment> \<open>the product\<close>
  define x1 where "x1 = m * real k"
  define p where "p = fl x1"
  have lo': "S * L \<le> x1" and hi': "x1 \<le> S * U"
    using lo hi by (simp_all add: x1_def L_def U_def)
  have p_bounds: "S * L * a \<le> p \<and> p \<le> S * U * b"
  proof (cases "x1 = 0")
    case True
    then have "p = 0" by (simp add: p_def fl_zero)
    moreover have "S * L \<le> 0" using lo' True by simp
    then have "S * L * a \<le> 0" using a0 by (simp add: mult_le_0_iff)
    moreover have "0 \<le> S * U * b" using S0 U0 b0 by simp
    ultimately show ?thesis by simp
  next
    case False
    then have "k \<noteq> 0" by (auto simp: x1_def)
    then have "1 \<le> real k" by simp
    from this S have "1 \<le> S" by (rule order_trans)
    then have "1 * (1 / 2) \<le> S * L" using Lh by (intro mult_mono) simp_all
    then have "1 / 2 \<le> x1" using lo' by simp
    from fl_mono_bounds [OF a0 a b this lo' hi'] show ?thesis by (simp add: p_def)
  qed
  have p0: "0 \<le> p"
  proof -
    have "0 \<le> S * L * a" using S0 L0 a0 by simp
    with p_bounds show ?thesis by linarith
  qed
  \<comment> \<open>the sum\<close>
  define x2 where "x2 = p + r"
  define t where "t = fl x2"
  have r0: "0 \<le> r" using r by simp
  have "r * (L * a) \<le> r * 1" using La_le1 r0 by (intro mult_left_mono) simp_all
  then have x2lo: "(S + r) * (L * a) \<le> x2"
    using p_bounds by (simp add: x2_def distrib_right algebra_simps)
  have "r * 1 \<le> r * (U * b)" using Ub r0 by (intro mult_left_mono) simp_all
  then have x2hi: "x2 \<le> (S + r) * (U * b)"
    using p_bounds by (simp add: x2_def distrib_right algebra_simps)
  have x2h: "1 / 2 \<le> x2" using p0 r by (simp add: x2_def)
  from fl_mono_bounds [OF a0 a b x2h x2lo x2hi]
  have t_bounds: "(S + r) * (L * a) * a \<le> t" "t \<le> (S + r) * (U * b) * b"
    by (simp_all add: t_def)
  \<comment> \<open>the quotient\<close>
  define n where "n = real (k + 1)"
  have n0: "0 < n" by (simp add: n_def)
  have Sr: "n \<le> S + r" using S r by (simp add: n_def)
  define x3 where "x3 = t / n"
  have "n * (1 / 2) \<le> (S + r) * (L * a * a)"
    using Sr Lah n0 by (intro mult_mono) simp_all
  then have "n / 2 \<le> t" using t_bounds(1) by (simp add: mult.assoc)
  then have x3h: "1 / 2 \<le> x3" using n0 by (simp add: x3_def field_simps)
  have x3n: "x3 * n = t" using n0 by (simp add: x3_def)
  from fl_near [OF x3h] have f3: "x3 * a \<le> fl x3" "fl x3 \<le> x3 * b"
    by (simp_all add: a b)
  have "x3 * a * n \<le> fl x3 * n"
    using f3(1) n0 by (intro mult_right_mono) simp_all
  moreover have "x3 * a * n = t * a" using x3n by (simp add: mult.commute mult.left_commute)
  moreover have "(S + r) * (L * a) * a * a \<le> t * a"
    using t_bounds(1) a0 by (intro mult_right_mono) simp_all
  ultimately have "(S + r) * (L * a) * a * a \<le> fl x3 * n" by linarith
  then have r1: "(S + r) * (L * a * a * a) \<le> fl x3 * n" by (simp add: mult.assoc)
  have "fl x3 * n \<le> x3 * b * n"
    using f3(2) n0 by (intro mult_right_mono) simp_all
  moreover have "x3 * b * n = t * b" using x3n by (simp add: mult.commute mult.left_commute)
  moreover have "t * b \<le> (S + r) * (U * b) * b * b"
    using t_bounds(2) b0 by (intro mult_right_mono) simp_all
  ultimately have "fl x3 * n \<le> (S + r) * (U * b) * b * b" by linarith
  then have r2: "fl x3 * n \<le> (S + r) * (U * b * b * b)" by (simp add: mult.assoc)
  show ?thesis
    using r1 r2 unfolding pa pb x3_def t_def x2_def p_def x1_def n_def by simp
qed


lemma quantum_power:
  "1 \<le> x \<Longrightarrow> \<exists>e. quantum x = 2 ^ e / 2 ^ 52 \<and> 2 ^ e \<le> x \<and> x < 2 ^ (e + 1)"
proof (induction x rule: quantum.induct)
  case (1 x)
  show ?case
  proof (cases "2 \<le> x")
    case True
    with "1.prems" obtain e where
      e: "quantum (x / 2) = 2 ^ e / 2 ^ 52" "2 ^ e \<le> x / 2" "x / 2 < 2 ^ (e + 1)"
      using "1.IH"(1) by force
    have "quantum x = 2 * quantum (x / 2)"
      using True by (subst quantum.simps) simp
    then have "quantum x = 2 ^ (e + 1) / 2 ^ 52" using e(1) by simp
    moreover have "2 ^ (e + 1) \<le> x" using e(2) by simp
    moreover have "x < 2 ^ (e + 1 + 1)" using e(3) by simp
    ultimately show ?thesis by blast
  next
    case False
    with "1.prems" have "quantum x = 1 / 2 ^ 52"
      by (subst quantum.simps) simp
    then have "quantum x = 2 ^ 0 / 2 ^ 52 \<and> 2 ^ 0 \<le> x \<and> x < 2 ^ (0 + 1)"
      using False "1.prems" by simp
    then show ?thesis by blast
  qed
qed

lemma round_half_even_of_int: "round_half_even (of_int z) = z"
  by (simp add: round_half_even_def)

lemma fl_of_nat:
  assumes "k < 2 ^ 53"
  shows "fl (real k) = real k"
proof (cases "k = 0")
  case True
  then show ?thesis by (simp add: fl_zero)
next
  case False
  define x where "x = real k"
  have x1: "1 \<le> x" using False by (simp add: x_def)
  from quantum_power [OF x1] obtain e where
    e: "quantum x = 2 ^ e / 2 ^ 52" "2 ^ e \<le> x" "x < 2 ^ (e + 1)" by blast
  have "x < 2 ^ 53" using assms unfolding x_def
    by (metis of_nat_less_iff of_nat_numeral of_nat_power)
  with e(2) have h: "(2::real) ^ e < 2 ^ 53" by linarith
  have one: "(1::real) < 2" by simp
  from power_less_imp_less_exp [OF one h] have e52: "e \<le> 52" by simp
  then have q: "quantum x = 1 / 2 ^ (52 - e)"
    using e(1) by (simp add: power_diff)
  have "(1::real) / 2 ^ 1074 \<le> 1 / 2 ^ (52 - e)"
    by (intro divide_left_mono power_increasing) simp_all
  then have m: "max (quantum x) (1 / 2 ^ 1074) = quantum x" using q by simp
  have "x / quantum x = x * 2 ^ (52 - e)" unfolding q by simp
  then have "x / quantum x = of_int (int (k * 2 ^ (52 - e)))"
    by (simp add: x_def)
  then have "round_half_even (x / quantum x) = int (k * 2 ^ (52 - e))"
    by (simp only: round_half_even_of_int)
  then have "fl x = of_int (int (k * 2 ^ (52 - e))) * quantum x"
    using x1 m by (simp add: fl_def Let_def)
  also have "\<dots> = x" unfolding q by (simp add: x_def)
  finally show ?thesis by (simp add: x_def)
qed

lemma float_of_int_nat: "k < 2 ^ 53 \<Longrightarrow> float_of_int (int k) = real k"
  using fl_of_nat [of k] by (simp add: float_of_int_def)

lemma power_half:
  assumes "n \<le> 2 ^ 50"
  shows "1 / 2 \<le> (1 - 1 / 2 ^ 53 :: real) ^ (3 * n)"
proof -
  define u where "u = (1 / 2 ^ 53 :: real)"
  have "real n \<le> 2 ^ 50" using assms
    by (metis of_nat_le_iff of_nat_numeral of_nat_power)
  then have "real n * u \<le> 2 ^ 50 * u" by (intro mult_right_mono) (simp_all add: u_def)
  also have "\<dots> = 1 / 8" by (simp add: u_def)
  finally have nu: "real n * u \<le> 1 / 8" .
  have "- 1 \<le> - u" by (simp add: u_def)
  from Bernoulli_inequality [OF this, of "3 * n"]
  have "1 + real (3 * n) * - u \<le> (1 + - u) ^ (3 * n)" .
  moreover have "1 + real (3 * n) * - u = 1 - 3 * (real n * u)" by simp
  ultimately have "1 - 3 * (real n * u) \<le> (1 - u) ^ (3 * n)" by simp
  with nu have "1 / 2 \<le> (1 - u) ^ (3 * n)" by linarith
  then show ?thesis by (simp add: u_def)
qed

lemma fold_mean_count: "snd (fold_mean m c rs) = c + int (length rs)"
  by (induction rs arbitrary: m c) simp_all

lemma fold_mean_bounds:
  fixes a b :: real
  assumes "a = 1 - 1 / 2 ^ 53" and "b = 1 + 1 / 2 ^ 53"
    and "\<forall>r\<in>set rs. 1 \<le> r"
    and "real k \<le> S"
    and "S * a ^ (3 * k) \<le> m * real k"
    and "m * real k \<le> S * b ^ (3 * k)"
    and "k + length rs \<le> 2 ^ 50"
  shows "(S + sum_list rs) * a ^ (3 * (k + length rs))
           \<le> fst (fold_mean m (int k) rs) * real (k + length rs)
       \<and> fst (fold_mean m (int k) rs) * real (k + length rs)
           \<le> (S + sum_list rs) * b ^ (3 * (k + length rs))"
  using assms(3-7)
proof (induction rs arbitrary: m k S)
  case Nil
  then show ?case by simp
next
  case (Cons r rs)
  define m' where "m' = fl (fl (fl (m * real k) + r) / real (k + 1))"
  from Cons.prems(5) have k1: "k + 1 \<le> 2 ^ 50" and kl: "k + 1 + length rs \<le> 2 ^ 50"
    by simp_all
  have "(2::nat) ^ 50 < 2 ^ 53" by simp
  with k1 have k53: "k < 2 ^ 53" "k + 1 < 2 ^ 53" by linarith+
  have f: "float_of_int (int k) = real k" "float_of_int (int k + 1) = real (k + 1)"
    using float_of_int_nat [OF k53(1)] float_of_int_nat [OF k53(2)]
    by (simp_all add: add.commute)
  have i: "int (k + 1) = int k + 1" by simp
  have step: "fold_mean m (int k) (r # rs) = fold_mean m' (int (k + 1)) rs"
    unfolding fold_mean.simps i f m'_def ..
  from Cons.prems(1) have r: "1 \<le> r" and rs: "\<forall>r\<in>set rs. 1 \<le> r" by simp_all
  have small: "1 / 2 \<le> a ^ (3 * (k + 1))"
    unfolding assms(1) using k1 by (rule power_half)
  from mean_step_bounds [OF assms(1,2) r Cons.prems(2,3,4) small]
  have b: "(S + r) * a ^ (3 * (k + 1)) \<le> m' * real (k + 1)"
          "m' * real (k + 1) \<le> (S + r) * b ^ (3 * (k + 1))"
    by (simp_all add: m'_def)
  have S': "real (k + 1) \<le> S + r" using Cons.prems(2) r by simp
  from Cons.IH [OF rs S' b kl] show ?case
    by (simp add: step add.assoc del: fold_mean.simps of_nat_add of_nat_Suc)
qed

lemma fold_mean_exact:
  assumes "exact_means S k rs" and "fl S = S" and "m * real k = S"
    and "k + length rs < 2 ^ 53"
  shows "fst (fold_mean m (int k) rs) * real (k + length rs) = S + sum_list rs"
  using assms
proof (induction rs arbitrary: m k S)
  case Nil
  then show ?case by simp
next
  case (Cons r rs)
  define m' where "m' = (S + r) / real (k + 1)"
  from Cons.prems(4) have k53: "k < 2 ^ 53" "k + 1 < 2 ^ 53" and kl: "k + 1 + length rs < 2 ^ 53"
    by simp_all
  have f: "float_of_int (int k) = real k" "float_of_int (int k + 1) = real (k + 1)"
    using float_of_int_nat [OF k53(1)] float_of_int_nat [OF k53(2)]
    by (simp_all add: add.commute)
  from Cons.prems(1) have e: "fl (S + r) = S + r" "fl m' = m'" "exact_means (S + r) (k + 1) rs"
    by (simp_all add: m'_def)
  have fm: "fl (fl (fl (m * real k) + r) / real (k + 1)) = m'"
    using Cons.prems(2,3) e(1,2) by (simp add: m'_def)
  have i: "int (k + 1) = int k + 1" by simp
  have step: "fold_mean m (int k) (r # rs) = fold_mean m' (int (k + 1)) rs"
    unfolding fold_mean.simps i f fm ..
  have mk: "m' * real (k + 1) = S + r" by (simp add: m'_def)
  from Cons.IH [OF e(3) e(1) mk kl] show ?case
    by (simp add: step add.assoc del: fold_mean.simps of_nat_add of_nat_Suc)
qed

lemma float_of_int_small:
  "float_of_int 0 = 0" "float_of_int 1 = 1" "float_of_int 2 = 2" "float_of_int 3 = 3"
  "float_of_int 4 = 4" "float_of_int 5 = 5" "float_of_int 6 = 6" "float_of_int 7 = 7"
  "float_of_int 8 = 8"
  by (simp_all add: float_of_int_def fl_def quantum.simps round_half_even_def)

lemma fold_mean_example:
  "fold_mean 0 0 [3, 4, 5, 5, 4, 5, 3, 2] = (31 / 8 + 1 / 2 ^ 51, 8)"
  by (simp add: float_of_int_small fl_def quantum.simps round_half_even_def)

lemma add_review_sample:
  "add_review [] sample_id sample_body
     = (Inr (Response 201 (message ''Review added successfully!'')), sample_db)"
  by (simp add: add_review_def dict_index_def dict_get_default_def insert_one_def
                sample_body_def sample_db_def sample_doc_def)

lemma find_one_sample: "find_one sample_id sample_db = Some sample_doc"
  by (simp add: find_one_def sample_db_def)

subsection \<open>The stored mean\<close>

text \<open>
  C1, as the code has it. A review created by \<^verbatim>\<open>add_review\<close> starts with rating 0
  and count 0. After the ratings \<open>r1..rn\<close>, each between 1 and 5 and \<open>n\<close> between 1
  and \<^verbatim>\<open>2^50\<close>, have been submitted to it through \<^verbatim>\<open>update_rating\<close>, every
  submission was answered with 200 and the stored count is \<open>n\<close>. The stored rating is
  the result of three rounded float operations per submission: it lies between
  \<^verbatim>\<open>sum(ri)/n * (1 - 2^-53)^(3n)\<close> and \<^verbatim>\<open>sum(ri)/n * (1 + 2^-53)^(3n)\<close>, and it is
  \<^verbatim>\<open>sum(ri)/n\<close> itself when every running sum and every running mean is a double,
  as for 4 then 2, which give 3.0 and 2.
\<close>

theorem running_mean_rounded:
  assumes "add_review db new_id data = (Inr resp, db1)"
    and "ObjectId rid = Inr new_id"
    and "\<forall>r\<in>set rs. 1 \<le> r \<and> r \<le> 5"
    and "rs \<noteq> []"
    and "length rs \<le> 2 ^ 50"
  shows "\<exists>db2 rv. submit_ratings db1 rid rs = Some db2 \<and> find_one new_id db2 = Some rv
           \<and> rating_count rv = int (length rs)
           \<and> sum_list rs / real (length rs) * (1 - 1 / 2 ^ 53) ^ (3 * length rs) \<le> rating rv
           \<and> rating rv \<le> sum_list rs / real (length rs) * (1 + 1 / 2 ^ 53) ^ (3 * length rs)
           \<and> (exact_means 0 0 rs \<longrightarrow> rating rv = sum_list rs / real (length rs))"
proof -
  define n where "n = length rs"
  define a where "a = (1 - 1 / 2 ^ 53 :: real)"
  define b where "b = (1 + 1 / 2 ^ 53 :: real)"
  define A where "A = a ^ (3 * n)"
  define B where "B = b ^ (3 * n)"
  from assms(1) obtain d where
    d: "find_one new_id db1 = Some d" "rating d = 0" "rating_count d = 0"
    using add_review_created by blast
  from d(3) have c: "0 \<le> rating_count d" by simp
  from submit_ratings_fold_mean [OF assms(2,3) d(1) c] obtain db2 rv where
    h: "submit_ratings db1 rid rs = Some db2" "find_one new_id db2 = Some rv"
       "(rating rv, rating_count rv) = fold_mean (rating d) (rating_count d) rs"
    by blast
  from h(3) d(2,3) have fm: "fold_mean 0 (int 0) rs = (rating rv, rating_count rv)"
    by simp
  have m: "fst (fold_mean 0 (int 0) rs) = rating rv" by (simp only: fm fst_conv)
  have "snd (fold_mean 0 (int 0) rs) = int 0 + int (length rs)" by (rule fold_mean_count)
  then have cnt: "rating_count rv = int n" by (simp only: fm snd_conv) (simp add: n_def)
  have npos: "0 < real n" using assms(4) by (simp add: n_def)
  have r1: "\<forall>r\<in>set rs. 1 \<le> r" using assms(3) by simp
  have len: "0 + length rs \<le> 2 ^ 50" using assms(5) by simp
  have z: "real 0 \<le> 0" "0 * a ^ (3 * 0) \<le> 0 * real 0" "0 * real 0 \<le> 0 * b ^ (3 * 0)"
    by simp_all
  from fold_mean_bounds [OF a_def b_def r1 z len]
  have "(0 + sum_list rs) * a ^ (3 * (0 + length rs))
           \<le> fst (fold_mean 0 (int 0) rs) * real (0 + length rs)
       \<and> fst (fold_mean 0 (int 0) rs) * real (0 + length rs)
           \<le> (0 + sum_list rs) * b ^ (3 * (0 + length rs))" .
  then have bd: "sum_list rs * A \<le> rating rv * real n" "rating rv * real n \<le> sum_list rs * B"
    unfolding m by (simp_all add: A_def B_def n_def)
  have "sum_list rs * A / real n \<le> rating rv"
    using bd(1) npos by (simp add: pos_divide_le_eq)
  then have lo: "sum_list rs / real n * A \<le> rating rv" by simp
  have "rating rv \<le> sum_list rs * B / real n"
    using bd(2) npos by (simp add: pos_le_divide_eq)
  then have hi: "rating rv \<le> sum_list rs / real n * B" by simp
  have ex: "exact_means 0 0 rs \<longrightarrow> rating rv = sum_list rs / real n"
  proof
    assume e: "exact_means 0 0 rs"
    have "(2::nat) ^ 50 < 2 ^ 53" by simp
    with assms(5) have l53: "0 + length rs < 2 ^ 53" by simp
    have z0: "(0::real) * real 0 = 0" by simp
    from fold_mean_exact [OF e fl_zero z0 l53]
    have "fst (fold_mean 0 (int 0) rs) * real (0 + length rs) = 0 + sum_list rs" .
    then have "rating rv * real n = sum_list rs" unfolding m by (simp add: n_def)
    then show "rating rv = sum_list rs / real n" using npos by (simp add: field_simps)
  qed
  from h(1,2) cnt lo hi ex show ?thesis
    unfolding A_def B_def a_def b_def n_def by blast
qed

theorem running_mean_rounded_witness:
  "\<exists>db2 rv. submit_ratings sample_db sample_rid [4, 2] = Some db2
     \<and> find_one sample_id db2 = Some rv \<and> rating rv = 3 \<and> rating_count rv = 2"
proof -
  have c: "\<forall>r\<in>set [4, 2 :: real]. 1 \<le> r \<and> r \<le> 5" by simp
  have d: "[4, 2 :: real] \<noteq> []" by simp
  have l: "length [4, 2 :: real] \<le> 2 ^ 50" by simp
  have e: "exact_means 0 0 [4, 2]"
    by (simp add: fl_def quantum.simps round_half_even_def)
  from running_mean_rounded [OF add_review_sample ObjectId_sample c d l]
  obtain db2 rv where
    h: "submit_ratings sample_db sample_rid [4, 2] = Some db2"
       "find_one sample_id db2 = Some rv"
       "rating_count rv = int (length [4, 2 :: real])"
       "exact_means 0 0 [4, 2] \<longrightarrow> rating rv = sum_list [4, 2] / real (length [4, 2 :: real])"
    by blast
  from h(3) have "rating_count rv = 2" by simp
  moreover from h(4) e have "rating rv = 3" by simp
  ultimately show ?thesis using h(1,2) by blast
qed

text \<open>
  The review \<open>sample_db\<close> holds is the one \<^verbatim>\<open>add_review\<close> creates from
  \<open>sample_body\<close>. After the ratings 3, 4, 5, 5, 4, 5, 3, 2, whose mean is 31/8 = 3.875,
  its stored rating is the next double above, 3.8750000000000004.
\<close>

theorem running_mean_inexact_counterexample:
  "add_review [] sample_id sample_body
     = (Inr (Response 201 (message ''Review added successfully!'')), sample_db)
   \<and> (\<exists>db2 rv. submit_ratings sample_db sample_rid [3, 4, 5, 5, 4, 5, 3, 2] = Some db2
         \<and> find_one sample_id db2 = Some rv \<and> rating_count rv = 8
         \<and> rating rv = 31 / 8 + 1 / 2 ^ 51
         \<and> rating rv \<noteq> sum_list [3, 4, 5, 5, 4, 5, 3, 2] / real (length [3, 4, 5, 5, 4, 5, 3, 2 :: real]))"
proof -
  have c: "\<forall>r\<in>set [3, 4, 5, 5, 4, 5, 3, 2 :: real]. 1 \<le> r \<and> r \<le> 5" by simp
  have z: "0 \<le> rating_count sample_doc" by (simp add: sample_doc_def)
  from submit_ratings_fold_mean [OF ObjectId_sample c find_one_sample z]
  obtain db2 rv where
    h: "submit_ratings sample_db sample_rid [3, 4, 5, 5, 4, 5, 3, 2] = Some db2"
       "find_one sample_id db2 = Some rv"
       "(rating rv, rating_count rv)
          = fold_mean (rating sample_doc) (rating_count sample_doc) [3, 4, 5, 5, 4, 5, 3, 2]"
    by blast
  have "rating sample_doc = 0" "rating_count sample_doc = 0" by (simp_all add: sample_doc_def)
  with h(3) have "(rating rv, rating_count rv) = (31 / 8 + 1 / 2 ^ 51, 8)"
    by (simp only: fold_mean_example)
  then have v: "rating rv = 31 / 8 + 1 / 2 ^ 51" "rating_count rv = 8" by simp_all
  have "rating rv \<noteq> sum_list [3, 4, 5, 5, 4, 5, 3, 2] / real (length [3, 4, 5, 5, 4, 5, 3, 2 :: real])"
    unfolding v by simp
  with h(1,2) v add_review_sample show ?thesis by blast
qed

section \<open>Rating a review that is not stored\<close>

text \<open>
  C8, as the code has it. Take an \<^verbatim>\<open>update_rating\<close> request with a rating between 1
  and 5. If its \<^verbatim>\<open>reviewId\<close> is a well-formed object identifier that no stored
  review carries, the answer is 404 and the store is unchanged. If its \<^verbatim>\<open>reviewId\<close>
  is missing or empty, the answer is 400 and the store is unchanged.
\<close>

theorem update_rating_unknown_review:
  assumes "data ''rating'' = Some (JNum r)" and "1 \<le> r" and "r \<le> 5"
  shows "(ObjectId (dict_get data ''reviewId'') = Inr i \<longrightarrow> find_one i db = None \<longrightarrow>
            update_rating db data = (Inr (Response 404 (error ''Review not found.'')), db))
       \<and> (\<not> truthy (dict_get data ''reviewId'') \<longrightarrow>
            update_rating db data
              = (Inr (Response 400 (error ''Review ID and rating are required.'')), db))"
proof (intro conjI impI)
  assume p: "ObjectId (dict_get data ''reviewId'') = Inr i" and n: "find_one i db = None"
  from p have t: "truthy (dict_get data ''reviewId'')" by (rule ObjectId_truthy)
  from assms have rt: "dict_get data ''rating'' = JNum r" "r \<noteq> 0"
    by (auto simp: dict_get_def)
  show "update_rating db data = (Inr (Response 404 (error ''Review not found.'')), db)"
    using assms(2,3) by (simp add: update_rating_def t rt p n)
next
  assume "\<not> truthy (dict_get data ''reviewId'')"
  then show "update_rating db data
              = (Inr (Response 400 (error ''Review ID and rating are required.'')), db)"
    by (simp add: update_rating_def)
qed

theorem update_rating_unknown_review_witness:
  "update_rating [(older_id, older_doc)] [''reviewId'' \<mapsto> sample_rid, ''rating'' \<mapsto> JNum 3]
     = (Inr (Response 404 (error ''Review not found.'')), [(older_id, older_doc)])
   \<and> update_rating [(older_id, older_doc)] [''rating'' \<mapsto> JNum 3]
     = (Inr (Response 400 (error ''Review ID and rating are required.'')),
        [(older_id, older_doc)])"
  using update_rating_unknown_review
          [of "[''reviewId'' \<mapsto> sample_rid, ''rating'' \<mapsto> JNum 3]" 3
              sample_id "[(older_id, older_doc)]"]
        update_rating_unknown_review
          [of "[''rating'' \<mapsto> JNum 3]" 3 sample_id "[(older_id, older_doc)]"]
  by (simp add: dict_get_def ObjectId_sample find_one_def older_id_def sample_id_def)

text \<open>
  An empty \<^verbatim>\<open>reviewId\<close> resolves to no review, and the request is answered with 400,
  not with 404.
\<close>

theorem update_rating_empty_id_counterexample:
  "update_rating [] [''reviewId'' \<mapsto> JStr [], ''rating'' \<mapsto> JNum 3]
     = (Inr (Response 400 (error ''Review ID and rating are required.'')), [])"
  by (simp add: update_rating_def dict_get_def)

section \<open>Comments\<close>

text \<open>
  C3. A comment for a well-formed identifier that no stored review carries: the handler
  stores nothing, and answers 200 with the success message, not 404.
\<close>

theorem add_comment_unknown_review_reports_success:
  "add_comment [] (JStr ''ann@example.org'')
      [''reviewId'' \<mapsto> JStr ''aaaaaaaaaaaaaaaaaaaaaaaa'', ''comment'' \<mapsto> JStr ''hi'']
     = (Inr (Response 200 (message ''Comment added successfully!'')), [])"
  by (simp add: add_comment_def dict_get_def hex_digit_def isspace_def)

theorem add_comment_unknown_review_reports_success_witness:
  "status (projr (fst (add_comment [] (JStr ''ann@example.org'')
      [''reviewId'' \<mapsto> JStr ''aaaaaaaaaaaaaaaaaaaaaaaa'', ''comment'' \<mapsto> JStr ''hi'']))) = 200
   \<and> snd (add_comment [] (JStr ''ann@example.org'')
      [''reviewId'' \<mapsto> JStr ''aaaaaaaaaaaaaaaaaaaaaaaa'', ''comment'' \<mapsto> JStr ''hi'']) = []"
  using add_comment_unknown_review_reports_success by simp

text \<open>
  C9. Two successive comments on a stored review are both answered with 200; afterwards
  the review's comment list is the old list followed by the first and then the second
  comment, and no other review has changed.
\<close>

theorem add_comment_appends_in_order:
  assumes "ObjectId (dict_get data1 ''reviewId'') = Inr i"
    and "ObjectId (dict_get data2 ''reviewId'') = Inr i"
    and "truthy (dict_get data1 ''comment'')"
    and "truthy (dict_get data2 ''comment'')"
    and "find_one i db = Some d"
  shows "\<exists>db1 db2.
           add_comment db u1 data1 = (Inr (Response 200 (message ''Comment added successfully!'')), db1)
         \<and> add_comment db1 u2 data2 = (Inr (Response 200 (message ''Comment added successfully!'')), db2)
         \<and> find_one i db2
             = Some (d\<lparr>comments := comments d
                        @ [\<lparr>user_email = u1, comment = dict_get data1 ''comment''\<rparr>,
                           \<lparr>user_email = u2, comment = dict_get data2 ''comment''\<rparr>]\<rparr>)
         \<and> (\<forall>j. j \<noteq> i \<longrightarrow> find_one j db2 = find_one j db)"
  using assms
  by (simp add: add_comment_def ObjectId_truthy find_one_update_one)

theorem add_comment_appends_in_order_witness:
  "\<exists>db1 db2.
      add_comment sample_db (JStr ''ann@example.org'')
          [''reviewId'' \<mapsto> sample_rid, ''comment'' \<mapsto> JStr ''first'']
        = (Inr (Response 200 (message ''Comment added successfully!'')), db1)
    \<and> add_comment db1 (JStr ''bob@example.org'')
          [''reviewId'' \<mapsto> sample_rid, ''comment'' \<mapsto> JStr ''second'']
        = (Inr (Response 200 (message ''Comment added successfully!'')), db2)
    \<and> find_one sample_id db2
        = Some (sample_doc\<lparr>comments := comments sample_doc
                  @ [\<lparr>user_email = JStr ''ann@example.org'', comment = JStr ''first''\<rparr>,
                     \<lparr>user_email = JStr ''bob@example.org'', comment = JStr ''second''\<rparr>]\<rparr>)
    \<and> (\<forall>j. j \<noteq> sample_id \<longrightarrow> find_one j db2 = find_one j sample_db)"
  using add_comment_appends_in_order
          [of "[''reviewId'' \<mapsto> sample_rid, ''comment'' \<mapsto> JStr ''first'']" sample_id
              "[''reviewId'' \<mapsto> sample_rid, ''comment'' \<mapsto> JStr ''second'']"
              sample_db sample_doc "JStr ''ann@example.org''" "JStr ''bob@example.org''"]
  by (simp add: dict_get_def ObjectId_sample find_one_def sample_db_def)

section \<open>Signing up with a registered email\<close>

text \<open>
  C5, as the code has it. Take a signup request whose email is a string. When it is the
  email of a stored user, no user is inserted; the answer is 409 when name, email and
  password are all present and non-empty, and 400 otherwise. Such a signup keeps the
  emails of the stored users distinct.
\<close>

theorem signup_existing_email:
  assumes "dict_get data ''email'' = JStr e"
  shows "((\<exists>u\<in>set users. email u = JStr e) \<longrightarrow>
      signup find_by_operator generate_password_hash create_access_token users data
        = (if truthy (dict_get data ''name'') \<and> truthy (dict_get data ''email'')
              \<and> truthy (dict_get data ''password'')
           then (Inr (Response 409 (error ''Email already registered'')), users)
           else (Inr (Response 400 (error ''Missing required fields'')), users)))
 \<and> (distinct (map email users) \<longrightarrow>
      distinct (map email (snd (signup find_by_operator generate_password_hash
                                  create_access_token users data))))"
proof (intro conjI impI)
  assume "\<exists>u\<in>set users. email u = JStr e"
  then have "find (\<lambda>u. eq_match (email u) (JStr e)) users \<noteq> None"
    by (auto simp: find_None_iff eq_match_def)
  then obtain found where "users_find_one find_by_operator (JStr e) users = Inr (Some found)"
    by (auto simp: users_find_one_def)
  then show "signup find_by_operator generate_password_hash create_access_token users data
        = (if truthy (dict_get data ''name'') \<and> truthy (dict_get data ''email'')
              \<and> truthy (dict_get data ''password'')
           then (Inr (Response 409 (error ''Email already registered'')), users)
           else (Inr (Response 400 (error ''Missing required fields'')), users))"
    using assms by (simp add: signup_def Let_def)
next
  assume d: "distinct (map email users)"
  have n: "users_find_one find_by_operator (JStr e) users = Inr None
             \<Longrightarrow> JStr e \<notin> email ` set users"
    by (auto simp: users_find_one_def find_None_iff eq_match_def)
  show "distinct (map email (snd (signup find_by_operator generate_password_hash
                                    create_access_token users data)))"
    using d n assms
    by (auto simp: signup_def Let_def split: sum.splits option.splits)
qed

theorem signup_existing_email_witness:
  "signup sample_operators sample_hash sample_token [sample_user]
      [''name'' \<mapsto> JStr ''Eve'', ''email'' \<mapsto> JStr ''ann@example.org'', ''password'' \<mapsto> JStr ''pw'']
     = (Inr (Response 409 (error ''Email already registered'')), [sample_user])
   \<and> distinct (map email (snd (signup sample_operators sample_hash sample_token [sample_user]
        [''name'' \<mapsto> JStr ''Eve'', ''email'' \<mapsto> JStr ''eve@example.org'', ''password'' \<mapsto> JStr ''pw''])))"
  using signup_existing_email [of
          "[''name'' \<mapsto> JStr ''Eve'', ''email'' \<mapsto> JStr ''ann@example.org'', ''password'' \<mapsto> JStr ''pw'']"
          "''ann@example.org''" "[sample_user]" sample_operators sample_hash sample_token]
        signup_existing_email [of
          "[''name'' \<mapsto> JStr ''Eve'', ''email'' \<mapsto> JStr ''eve@example.org'', ''password'' \<mapsto> JStr ''pw'']"
          "''eve@example.org''" "[sample_user]" sample_operators sample_hash sample_token]
  by (simp add: dict_get_def sample_user_def)

text \<open>
  A signup with a registered email and no name is answered with 400, not with 409.
\<close>

theorem signup_missing_name_counterexample:
  "signup sample_operators sample_hash sample_token [sample_user]
      [''email'' \<mapsto> JStr ''ann@example.org'']
     = (Inr (Response 400 (error ''Missing required fields'')), [sample_user])"
  by (simp add: signup_def dict_get_def)

section \<open>Filtering and sorting reviews\<close>

lemma matches_add_filter:
  "matches (add_filter k a q) d
     = (matches q d
        \<and> (\<forall>v. a = Some v \<and> v \<noteq> [] \<longrightarrow>
              (\<exists>stored. doc_field k d = Some stored \<and> eq_match stored (JStr v))))"
  by (auto simp: matches_def add_filter_def split: option.splits)

lemma matches_Nil: "matches [] d"
  by (simp add: matches_def)

lemma matches_query_of:
  "matches (query_of args) d
     = ((\<forall>v. args ''location'' = Some v \<and> v \<noteq> [] \<longrightarrow> eq_match (location d) (JStr v))
      \<and> (\<forall>v. args ''purpose'' = Some v \<and> v \<noteq> [] \<longrightarrow> eq_match (purpose d) (JStr v))
      \<and> (\<forall>v. args ''budget'' = Some v \<and> v \<noteq> [] \<longrightarrow> eq_match (budget d) (JStr v))
      \<and> (\<forall>v. args ''transport'' = Some v \<and> v \<noteq> [] \<longrightarrow> eq_match (transport d) (JStr v)))"
  by (simp add: query_of_def matches_add_filter matches_Nil doc_field_def)



lemma mset_sort_desc: "mset (sort_desc f xs) = mset xs"
  by (simp add: sort_desc_def)



lemma get_reviews_unsorted:
  "args ''sort'' \<noteq> Some ''newest'' \<Longrightarrow> args ''sort'' \<noteq> Some ''rating'' \<Longrightarrow>
   fst (get_reviews db args) = map (\<lambda>(i, d). (str i, d)) (find_docs (query_of args) db)"
  by (simp add: get_reviews_def query_of_def Let_def)

lemma get_reviews_newest:
  "args ''sort'' = Some ''newest'' \<Longrightarrow>
   fst (get_reviews db args)
     = map (\<lambda>(i, d). (str i, d)) (sort_desc fst (find_docs (query_of args) db))"
  by (simp add: get_reviews_def query_of_def Let_def)

lemma get_reviews_rating:
  "args ''sort'' = Some ''rating'' \<Longrightarrow>
   fst (get_reviews db args)
     = map (\<lambda>(i, d). (str i, d)) (sort_desc (\<lambda>(i, d). rating d) (find_docs (query_of args) db))"
  by (simp add: get_reviews_def query_of_def Let_def)

lemma mset_get_reviews:
  "mset (fst (get_reviews db args))
     = image_mset (\<lambda>(i, d). (str i, d)) (mset (find_docs (query_of args) db))"
proof -
  consider "args ''sort'' = Some ''newest''" | "args ''sort'' = Some ''rating''"
    | "args ''sort'' \<noteq> Some ''newest''" "args ''sort'' \<noteq> Some ''rating''" by blast
  then show ?thesis
  proof cases
    case 1 then show ?thesis by (simp add: get_reviews_newest mset_sort_desc)
  next
    case 2 then show ?thesis by (simp add: get_reviews_rating mset_sort_desc)
  next
    case 3 then show ?thesis by (simp add: get_reviews_unsorted)
  qed
qed

lemma str_sample: "str sample_id = ''aaaaaaaaaaaaaaaaaaaaaaaa''"
  by (simp add: str_def hex_of_byte_def sample_id_def)

lemma str_older: "str older_id = ''0102030405060708090a0b0c''"
  by (simp add: str_def hex_of_byte_def older_id_def)


text \<open>
  C6, as the code has it. Whatever the sort mode, \<^verbatim>\<open>get_reviews\<close> returns, each once
  and with its identifier as text, exactly the stored reviews that match every filter
  among \<^verbatim>\<open>location\<close>, \<^verbatim>\<open>purpose\<close>, \<^verbatim>\<open>budget\<close>, \<^verbatim>\<open>transport\<close> that is given
  with a non-empty value: the review's field is the value, or is a list with the value
  among its elements. A filter that is absent or empty excludes nothing, and with no
  filter at all every stored review is returned.
\<close>

theorem get_reviews_filters:
  "mset (fst (get_reviews db args))
     = image_mset (\<lambda>(i, d). (str i, d))
         (filter_mset
            (\<lambda>(i, d).
                 (\<forall>v. args ''location'' = Some v \<and> v \<noteq> [] \<longrightarrow> eq_match (location d) (JStr v))
               \<and> (\<forall>v. args ''purpose'' = Some v \<and> v \<noteq> [] \<longrightarrow> eq_match (purpose d) (JStr v))
               \<and> (\<forall>v. args ''budget'' = Some v \<and> v \<noteq> [] \<longrightarrow> eq_match (budget d) (JStr v))
               \<and> (\<forall>v. args ''transport'' = Some v \<and> v \<noteq> [] \<longrightarrow> eq_match (transport d) (JStr v)))
            (mset db))
   \<and> (args ''location'' = None \<and> args ''purpose'' = None \<and> args ''budget'' = None
        \<and> args ''transport'' = None \<longrightarrow>
      mset (fst (get_reviews db args)) = image_mset (\<lambda>(i, d). (str i, d)) (mset db))"
  by (simp add: mset_get_reviews find_docs_def matches_query_of)

theorem get_reviews_filters_witness:
  "mset (fst (get_reviews two_reviews [''location'' \<mapsto> ''Paris'', ''budget'' \<mapsto> []]))
     = {#(''aaaaaaaaaaaaaaaaaaaaaaaa'', sample_doc)#}
   \<and> mset (fst (get_reviews two_reviews Map.empty))
     = {#(''0102030405060708090a0b0c'', older_doc), (''aaaaaaaaaaaaaaaaaaaaaaaa'', sample_doc)#}"
  using get_reviews_filters [of two_reviews "[''location'' \<mapsto> ''Paris'', ''budget'' \<mapsto> []]"]
        get_reviews_filters [of two_reviews Map.empty]
  by (simp add: two_reviews_def str_sample str_older sample_doc_def older_doc_def eq_match_def)

text \<open>
  The stored sample review is in Paris; asked with the empty \<^verbatim>\<open>location\<close> filter,
  \<^verbatim>\<open>get_reviews\<close> returns it, although its location is not the empty string. And a
  review added with the list of Paris and Rome as its location is returned for the
  filter \<^verbatim>\<open>location=Paris\<close>, although its location does not equal that string.
\<close>

theorem get_reviews_filter_counterexample:
  "map (\<lambda>(i, d). location d) (fst (get_reviews sample_db [''location'' \<mapsto> []]))
     = [JStr ''Paris'']
   \<and> map (\<lambda>(i, d). location d)
       (fst (get_reviews (snd (add_review [] sample_id listed_body)) [''location'' \<mapsto> ''Paris'']))
     = [JArr [JStr ''Paris'', JStr ''Rome'']]"
  by (simp add: get_reviews_def add_filter_def find_docs_def matches_def
                sample_db_def sample_doc_def add_review_def dict_index_def
                dict_get_default_def insert_one_def listed_body_def doc_field_def
                eq_match_def)






end
